theory Spec2Isabelle
  imports Main "HOL-Library.Word" "HOL-Library.Finite_Map"
begin

section \<open>Data model of \<^verbatim>\<open>src/interface/allocator.cpp\<close>\<close>

text \<open>
  \<^verbatim>\<open>size_t\<close> is the 64-bit unsigned integer of the LP64 targets of the library:
  \<open>+\<close> and \<open>-\<close> wrap around. Thread identities, allocator pointers and buffer
  addresses are opaque keys that the code only compares for equality.
\<close>

type_synonym size_t = "64 word"
type_synonym thread_id = nat
type_synonym allocator_ptr = nat
type_synonym buf_ptr = nat

text \<open>The enumeration \<^verbatim>\<open>allocator_lifetime\<close>: \<^verbatim>\<open>persistent\<close>, \<^verbatim>\<open>output\<close>, \<^verbatim>\<open>temp\<close>.\<close>

datatype allocator_lifetime = Persistent | Output | Temp

text \<open>
  \<^verbatim>\<open>mem_info_t {size, lifetime}\<close>; the code reads its field \<^verbatim>\<open>size_\<close>. (A name that
  ends with an underscore cannot be updated in a record, so the trailing underscores of the
  source are dropped throughout.)
\<close>

record mem_info_t =
  info_size :: size_t
  info_type :: allocator_lifetime

text \<open>\<^verbatim>\<open>attribute_t\<close>: the code reads \<^verbatim>\<open>attr.data.type\<close> only.\<close>

record attribute_t =
  data_type :: allocator_lifetime

text \<open>
  \<^verbatim>\<open>utils::rw_mutex_t\<close> is declared in \<^verbatim>\<open>utils/rw_mutex.hpp\<close>, which is not among the
  sources. The mutex is therefore kept abstract: the state records the calls made on
  \<^verbatim>\<open>rw_mutex_\<close>, in order.
\<close>

datatype mutex_call = Lock_read | Unlock_read | Lock_write | Unlock_write

text \<open>The static members of \<^verbatim>\<open>monitor_t\<close> (lines 69 to 87).\<close>

record monitor_t =
  persist_mem :: "(allocator_ptr, size_t) fmap"
  persist_mem_infos :: "(allocator_ptr, (buf_ptr, mem_info_t) fmap) fmap"
  temp_mem :: "(thread_id, (allocator_ptr, size_t) fmap) fmap"
  peak_temp_mem :: "(thread_id, (allocator_ptr, size_t) fmap) fmap"
  temp_mem_infos :: "(thread_id, (allocator_ptr, (buf_ptr, mem_info_t) fmap) fmap) fmap"
  rw_mutex :: "mutex_call list"

text \<open>The maps are default-constructed: empty; no call has been made on the mutex.\<close>

definition monitor_init :: monitor_t where
  "monitor_init =
     \<lparr>persist_mem = fmempty, persist_mem_infos = fmempty, temp_mem = fmempty,
      peak_temp_mem = fmempty, temp_mem_infos = fmempty, rw_mutex = []\<rparr>"

text \<open>
  How a monitor operation can end without returning: \<^verbatim>\<open>std::out_of_range\<close> thrown by
  \<^verbatim>\<open>unordered_map::at\<close> (with the state at the throw, nothing catches it inside the
  monitor), the abort of a failed assertion, and undefined behaviour (dereferencing the
  \<^verbatim>\<open>end()\<close> iterator).
\<close>

datatype error = Out_of_range monitor_t | Assertion_failed | Undefined_behaviour

section \<open>\<^verbatim>\<open>std::unordered_map\<close>\<close>

text \<open>
  \<^verbatim>\<open>m[k]\<close> inserts a value-initialised element when \<^verbatim>\<open>k\<close> is absent and yields a
  reference to the element: \<open>subscript d m k\<close> is the value read (\<open>d\<close> the
  value-initialised one), \<open>touch d k m\<close> the map after the access.
\<close>

definition subscript :: "'v \<Rightarrow> ('k, 'v) fmap \<Rightarrow> 'k \<Rightarrow> 'v" where
  "subscript d m k = (case fmlookup m k of None \<Rightarrow> d | Some v \<Rightarrow> v)"

definition touch :: "'v \<Rightarrow> 'k \<Rightarrow> ('k, 'v) fmap \<Rightarrow> ('k, 'v) fmap" where
  "touch d k m = (case fmlookup m k of None \<Rightarrow> fmupd k d m | Some v \<Rightarrow> m)"

text \<open>\<^verbatim>\<open>m.emplace(k, v)\<close> inserts only when \<^verbatim>\<open>k\<close> is absent.\<close>

definition emplace :: "'k \<Rightarrow> 'v \<Rightarrow> ('k, 'v) fmap \<Rightarrow> ('k, 'v) fmap" where
  "emplace k v m = (case fmlookup m k of None \<Rightarrow> fmupd k v m | Some w \<Rightarrow> m)"

text \<open>The two-level accesses \<^verbatim>\<open>m[t][a]\<close>: value read, map after the access, \<^verbatim>\<open>m[t][a] = v\<close>.\<close>

definition subscript2 :: "'v \<Rightarrow> ('t, ('a, 'v) fmap) fmap \<Rightarrow> 't \<Rightarrow> 'a \<Rightarrow> 'v" where
  "subscript2 d m t a = subscript d (subscript fmempty m t) a"

definition touch2 :: "'v \<Rightarrow> 't \<Rightarrow> 'a \<Rightarrow> ('t, ('a, 'v) fmap) fmap \<Rightarrow> ('t, ('a, 'v) fmap) fmap" where
  "touch2 d t a m = fmupd t (touch d a (subscript fmempty m t)) m"

definition assign2 :: "'t \<Rightarrow> 'a \<Rightarrow> 'v \<Rightarrow> ('t, ('a, 'v) fmap) fmap \<Rightarrow> ('t, ('a, 'v) fmap) fmap" where
  "assign2 t a v m = fmupd t (fmupd a v (subscript fmempty m t)) m"

section \<open>The usage monitor\<close>

text \<open>Calls on \<^verbatim>\<open>rw_mutex_\<close>.\<close>

definition mutex :: "mutex_call \<Rightarrow> monitor_t \<Rightarrow> monitor_t" where
  "mutex c s = s\<lparr>rw_mutex := rw_mutex s @ [c]\<rparr>"

text \<open>\<^verbatim>\<open>monitor_t::lock_write\<close> and \<^verbatim>\<open>monitor_t::unlock_write\<close> (lines 152 to 158).\<close>

definition lock_write :: "monitor_t \<Rightarrow> monitor_t" where
  "lock_write s = mutex Lock_write s"

definition unlock_write :: "monitor_t \<Rightarrow> monitor_t" where
  "unlock_write s = mutex Unlock_write s"

text \<open>
  Modelled from the spec: the macro \<^verbatim>\<open>assertm\<close> is defined in \<^verbatim>\<open>utils/utils.hpp\<close>, which
  is not among the sources. The specification says of the branch that calls it that it is a
  "fatal abort", which "aborts rather than returning a status": a false condition ends the
  process.
\<close>

definition assertm :: "bool \<Rightarrow> string \<Rightarrow> error + unit" where
  "assertm c msg = (if c then Inr () else Inl Assertion_failed)"

text \<open>
  \<^verbatim>\<open>record_allocate\<close> (lines 89 to 107); \<open>tid\<close> is \<^verbatim>\<open>std::this_thread::get_id()\<close>.
  Reading \<^verbatim>\<open>peak_temp_mem_[tid][alloc]\<close> in the comparison creates the slot.
\<close>

definition record_allocate ::
  "thread_id \<Rightarrow> allocator_ptr \<Rightarrow> buf_ptr \<Rightarrow> size_t \<Rightarrow> attribute_t \<Rightarrow> monitor_t
    \<Rightarrow> error + monitor_t" where
  "record_allocate tid alloc buf sz attr s =
     (if data_type attr = Persistent then
        Inr (s\<lparr>persist_mem :=
                 fmupd alloc (subscript 0 (persist_mem s) alloc + sz) (persist_mem s),
               persist_mem_infos :=
                 fmupd alloc
                   (emplace buf \<lparr>info_size = sz, info_type = Persistent\<rparr>
                      (subscript fmempty (persist_mem_infos s) alloc))
                   (persist_mem_infos s)\<rparr>)
      else if data_type attr = Temp then
        (let tm = assign2 tid alloc (subscript2 0 (temp_mem s) tid alloc + sz) (temp_mem s);
             pk = touch2 0 tid alloc (peak_temp_mem s);
             pk' = (if subscript2 0 pk tid alloc < subscript2 0 tm tid alloc
                    then assign2 tid alloc (subscript2 0 tm tid alloc) pk else pk);
             infos = assign2 tid alloc
                       (emplace buf \<lparr>info_size = sz, info_type = Temp\<rparr>
                          (subscript2 fmempty (temp_mem_infos s) tid alloc))
                       (temp_mem_infos s)
         in Inr (s\<lparr>temp_mem := tm, peak_temp_mem := pk', temp_mem_infos := infos\<rparr>))
      else
        (case assertm False ''we didn't use output type buffer now'' of
           Inl e \<Rightarrow> Inl e
         | Inr u \<Rightarrow> Inr s))"

text \<open>
  \<^verbatim>\<open>record_deallocate\<close> (lines 109 to 123). In the second branch \<^verbatim>\<open>find\<close> may return
  \<^verbatim>\<open>end()\<close>, which line 121 dereferences without a test. Nothing is erased there.
\<close>

definition record_deallocate ::
  "thread_id \<Rightarrow> allocator_ptr \<Rightarrow> buf_ptr \<Rightarrow> monitor_t \<Rightarrow> error + monitor_t" where
  "record_deallocate tid alloc buf s =
     (let is_persist =
            (case fmlookup (persist_mem_infos s) alloc of
               None \<Rightarrow> False
             | Some infos \<Rightarrow> fmlookup infos buf \<noteq> None)
      in if is_persist then
           (case fmlookup (subscript fmempty (persist_mem_infos s) alloc) buf of
              None \<Rightarrow> Inl Undefined_behaviour
            | Some persist_pos \<Rightarrow>
                Inr (s\<lparr>persist_mem :=
                         fmupd alloc (subscript 0 (persist_mem s) alloc - info_size persist_pos)
                           (persist_mem s),
                       persist_mem_infos :=
                         fmupd alloc (fmdrop buf (subscript fmempty (persist_mem_infos s) alloc))
                           (persist_mem_infos s)\<rparr>))
         else
           (let infos = touch2 fmempty tid alloc (temp_mem_infos s)
            in case fmlookup (subscript2 fmempty infos tid alloc) buf of
                 None \<Rightarrow> Inl Undefined_behaviour
               | Some temp_pos \<Rightarrow>
                   Inr (s\<lparr>temp_mem :=
                            assign2 tid alloc
                              (subscript2 0 (temp_mem s) tid alloc - info_size temp_pos)
                              (temp_mem s),
                          temp_mem_infos := infos\<rparr>)))"

text \<open>\<^verbatim>\<open>reset_peak_temp_memory\<close> (lines 125 to 131).\<close>

definition reset_peak_temp_memory :: "thread_id \<Rightarrow> allocator_ptr \<Rightarrow> monitor_t \<Rightarrow> monitor_t" where
  "reset_peak_temp_memory tid alloc s =
     (let s1 = mutex Lock_write s;
          s2 = s1\<lparr>peak_temp_mem := assign2 tid alloc 0 (peak_temp_mem s1)\<rparr>
      in mutex Unlock_write s2)"

text \<open>
  The body of \<^verbatim>\<open>reset_peak_temp_memory\<close> statement by statement, in the order of the
  source: line 128 calls \<^verbatim>\<open>rw_mutex_.lock_write()\<close>, line 129 writes the peak, line 130
  calls \<^verbatim>\<open>rw_mutex_.unlock_write()\<close>. A statement is a call on the mutex or an update of
  the registries.
\<close>

datatype stmt = Mutex_call mutex_call | Registry_update "monitor_t \<Rightarrow> monitor_t"

fun exec_stmt :: "stmt \<Rightarrow> monitor_t \<Rightarrow> monitor_t" where
  "exec_stmt (Mutex_call c) s = mutex c s"
| "exec_stmt (Registry_update f) s = f s"

definition exec_stmts :: "stmt list \<Rightarrow> monitor_t \<Rightarrow> monitor_t" where
  "exec_stmts body s = fold exec_stmt body s"

definition reset_peak_temp_memory_body :: "thread_id \<Rightarrow> allocator_ptr \<Rightarrow> stmt list" where
  "reset_peak_temp_memory_body tid alloc =
     [Mutex_call Lock_write,
      Registry_update (\<lambda>s. s\<lparr>peak_temp_mem := assign2 tid alloc 0 (peak_temp_mem s)\<rparr>),
      Mutex_call Unlock_write]"

text \<open>
  \<open>write_locked held body\<close> follows the statements of \<open>body\<close>, \<open>held\<close> telling whether the
  lock is held in exclusive mode before the first one: \<open>None\<close> when a registry update is
  made while the lock is not held, otherwise whether the lock is held after the last
  statement.
\<close>

fun write_locked :: "bool \<Rightarrow> stmt list \<Rightarrow> bool option" where
  "write_locked held [] = Some held"
| "write_locked held (Mutex_call Lock_write # body) = write_locked True body"
| "write_locked held (Mutex_call Unlock_write # body) = write_locked False body"
| "write_locked held (Mutex_call Lock_read # body) = write_locked held body"
| "write_locked held (Mutex_call Unlock_read # body) = write_locked held body"
| "write_locked held (Registry_update f # body) =
     (if held then write_locked held body else None)"

text \<open>
  \<^verbatim>\<open>get_peak_temp_memory\<close> (lines 133 to 140): \<^verbatim>\<open>at\<close> throws when the key is absent,
  after \<^verbatim>\<open>lock_read\<close> and before \<^verbatim>\<open>unlock_read\<close>.
\<close>

definition get_peak_temp_memory ::
  "thread_id \<Rightarrow> allocator_ptr \<Rightarrow> monitor_t \<Rightarrow> error + size_t \<times> monitor_t" where
  "get_peak_temp_memory tid alloc s =
     (let s1 = mutex Lock_read s
      in case fmlookup (peak_temp_mem s1) tid of
           None \<Rightarrow> Inl (Out_of_range s1)
         | Some m \<Rightarrow>
             (case fmlookup m alloc of
                None \<Rightarrow> Inl (Out_of_range s1)
              | Some ret \<Rightarrow> Inr (ret, mutex Unlock_read s1)))"

text \<open>\<^verbatim>\<open>get_total_persist_memory\<close> (lines 142 to 150).\<close>

definition get_total_persist_memory :: "allocator_ptr \<Rightarrow> monitor_t \<Rightarrow> size_t \<times> monitor_t" where
  "get_total_persist_memory alloc s =
     (let s1 = mutex Lock_read s;
          sz = (case fmlookup (persist_mem s1) alloc of Some v \<Rightarrow> v | None \<Rightarrow> 0)
      in (sz, mutex Unlock_read s1))"

section \<open>Sequences of monitor calls\<close>

datatype call =
    Record_allocate thread_id allocator_ptr buf_ptr size_t attribute_t
  | Record_deallocate thread_id allocator_ptr buf_ptr
  | Reset_peak_temp_memory thread_id allocator_ptr
  | Monitor_lock_write
  | Monitor_unlock_write

fun step :: "call \<Rightarrow> monitor_t \<Rightarrow> error + monitor_t" where
  "step (Record_allocate tid alloc buf sz attr) s = record_allocate tid alloc buf sz attr s"
| "step (Record_deallocate tid alloc buf) s = record_deallocate tid alloc buf s"
| "step (Reset_peak_temp_memory tid alloc) s = Inr (reset_peak_temp_memory tid alloc s)"
| "step Monitor_lock_write s = Inr (lock_write s)"
| "step Monitor_unlock_write s = Inr (unlock_write s)"

text \<open>A run stops at the first call that does not return.\<close>

fun run :: "call list \<Rightarrow> monitor_t \<Rightarrow> error + monitor_t" where
  "run [] s = Inr s"
| "run (c # cs) s = (case step c s of Inl e \<Rightarrow> Inl e | Inr s' \<Rightarrow> run cs s')"

text \<open>\<open>along P cs s\<close>: every call of the run \<open>cs\<close> from \<open>s\<close> satisfies \<open>P\<close> in the state it is made in.\<close>

fun along :: "(call \<Rightarrow> monitor_t \<Rightarrow> bool) \<Rightarrow> call list \<Rightarrow> monitor_t \<Rightarrow> bool" where
  "along P [] s = True"
| "along P (c # cs) s =
     (P c s \<and> (case step c s of Inl e \<Rightarrow> True | Inr s' \<Rightarrow> along P cs s'))"

section \<open>What the claims observe\<close>

definition total_persist :: "monitor_t \<Rightarrow> allocator_ptr \<Rightarrow> size_t" where
  "total_persist s alloc = fst (get_total_persist_memory alloc s)"

definition persist_entries :: "monitor_t \<Rightarrow> allocator_ptr \<Rightarrow> (buf_ptr, mem_info_t) fmap" where
  "persist_entries s alloc = subscript fmempty (persist_mem_infos s) alloc"

definition temp_entries ::
  "monitor_t \<Rightarrow> thread_id \<Rightarrow> allocator_ptr \<Rightarrow> (buf_ptr, mem_info_t) fmap" where
  "temp_entries s tid alloc = subscript2 fmempty (temp_mem_infos s) tid alloc"

definition temp_current :: "monitor_t \<Rightarrow> thread_id \<Rightarrow> allocator_ptr \<Rightarrow> size_t" where
  "temp_current s tid alloc = subscript2 0 (temp_mem s) tid alloc"

definition temp_peak :: "monitor_t \<Rightarrow> thread_id \<Rightarrow> allocator_ptr \<Rightarrow> size_t" where
  "temp_peak s tid alloc = subscript2 0 (peak_temp_mem s) tid alloc"

text \<open>The sum of the recorded sizes of an entry map, in \<^verbatim>\<open>size_t\<close> arithmetic.\<close>

definition sum_sizes :: "(buf_ptr, mem_info_t) fmap \<Rightarrow> size_t" where
  "sum_sizes m = (\<Sum>k\<in>fmdom' m. info_size (the (fmlookup m k)))"

text \<open>The temporary peak of a thread/allocator pair covers its current total.\<close>

definition peak_covers :: "monitor_t \<Rightarrow> thread_id \<Rightarrow> allocator_ptr \<Rightarrow> bool" where
  "peak_covers s tid alloc = (temp_current s tid alloc \<le> temp_peak s tid alloc)"

text \<open>The persistent total of an allocator is the sum of the sizes in its entry map.\<close>

definition total_matches :: "monitor_t \<Rightarrow> allocator_ptr \<Rightarrow> bool" where
  "total_matches s alloc = (total_persist s alloc = sum_sizes (persist_entries s alloc))"

text \<open>The call is not a \<^verbatim>\<open>reset_peak_temp_memory\<close> of the pair of thread \<open>t\<close> and allocator \<open>a\<close>.\<close>

fun not_reset_of :: "thread_id \<Rightarrow> allocator_ptr \<Rightarrow> call \<Rightarrow> monitor_t \<Rightarrow> bool" where
  "not_reset_of t a (Reset_peak_temp_memory tid alloc) s = (\<not> (tid = t \<and> alloc = a))"
| "not_reset_of t a c s = True"

text \<open>
  A \<^verbatim>\<open>record_deallocate\<close> of the pair of thread \<open>t\<close> and allocator \<open>a\<close> that takes the
  temporary branch and finds a record there subtracts no more than the current total of the
  pair. Calls of other pairs are not constrained.
\<close>

fun subtracts_within :: "thread_id \<Rightarrow> allocator_ptr \<Rightarrow> call \<Rightarrow> monitor_t \<Rightarrow> bool" where
  "subtracts_within t a (Record_deallocate tid alloc buf) s =
     (tid = t \<and> alloc = a \<longrightarrow>
        (case fmlookup (persist_entries s alloc) buf of
           Some i \<Rightarrow> True
         | None \<Rightarrow>
             (case fmlookup (temp_entries s tid alloc) buf of
                None \<Rightarrow> True
              | Some i \<Rightarrow> info_size i \<le> temp_current s tid alloc)))"
| "subtracts_within t a c s = True"


section \<open>Creating an allocator\<close>

datatype status_t = success | invalid_arguments | unimplemented

text \<open>
  The macros \<^verbatim>\<open>DNNL_GRAPH_CPU_SYCL\<close> and \<^verbatim>\<open>DNNL_GRAPH_WITH_SYCL\<close> are set by the build:
  whether each is defined is a parameter of the two creation functions.
\<close>

record build_t =
  dnnl_graph_cpu_sycl :: bool
  dnnl_graph_with_sycl :: bool

text \<open>A callback is a function pointer: \<open>None\<close> is the null pointer.\<close>

type_synonym fn_ptr = nat

text \<open>
  Modelled from the spec: \<^verbatim>\<open>allocator_t::create\<close> is declared in
  \<^verbatim>\<open>interface/allocator.hpp\<close>, which is not among the sources. The specification gives
  "\<^verbatim>\<open>create()\<close>: default facade using process-standard allocate/free" and
  "\<^verbatim>\<open>create(allocateFn, freeFn)\<close>: facade bound to the supplied pair". The facade is the
  pair of callbacks it was created with.
\<close>

datatype allocator_t = Default_pair | Cpu_pair fn_ptr fn_ptr | Sycl_pair fn_ptr fn_ptr

definition create :: allocator_t where
  "create = Default_pair"

definition create_cpu :: "fn_ptr \<Rightarrow> fn_ptr \<Rightarrow> allocator_t" where
  "create_cpu cpu_malloc cpu_free = Cpu_pair cpu_malloc cpu_free"

definition create_sycl :: "fn_ptr \<Rightarrow> fn_ptr \<Rightarrow> allocator_t" where
  "create_sycl sycl_malloc sycl_free = Sycl_pair sycl_malloc sycl_free"

text \<open>
  Modelled from the spec: \<^verbatim>\<open>utils::any_null\<close> is defined in \<^verbatim>\<open>utils/utils.hpp\<close>, which
  is not among the sources; the specification reads the test as "if either callback is
  absent".
\<close>

definition any_null :: "fn_ptr option \<Rightarrow> fn_ptr option \<Rightarrow> bool" where
  "any_null p q = (p = None \<or> q = None)"

text \<open>
  The out-parameter \<^verbatim>\<open>allocator_t **allocator\<close>: the null pointer, or a pointer to a
  cell that holds an \<^verbatim>\<open>allocator_t *\<close> (\<open>None\<close> the null pointer).
\<close>

datatype allocator_out = Null_out | Out "allocator_t option"

text \<open>\<^verbatim>\<open>*allocator = v\<close>: writing through the null pointer is undefined behaviour.\<close>

fun store :: "allocator_out \<Rightarrow> allocator_t \<Rightarrow> error + allocator_out" where
  "store Null_out v = Inl Undefined_behaviour"
| "store (Out old) v = Inr (Out (Some v))"

text \<open>
  \<^verbatim>\<open>dnnl_graph_allocator_create\<close> (lines 28 to 43). Neither branch tests \<^verbatim>\<open>allocator\<close>
  before it writes through it. The result is the status and the out-parameter with the
  content of its cell after the call.
\<close>

definition dnnl_graph_allocator_create ::
  "build_t \<Rightarrow> allocator_out \<Rightarrow> fn_ptr option \<Rightarrow> fn_ptr option
    \<Rightarrow> error + status_t \<times> allocator_out" where
  "dnnl_graph_allocator_create build allocator cpu_malloc cpu_free =
     (if dnnl_graph_cpu_sycl build then Inr (invalid_arguments, allocator)
      else
        (case (if any_null cpu_malloc cpu_free then store allocator create
               else store allocator (create_cpu (the cpu_malloc) (the cpu_free))) of
           Inl e \<Rightarrow> Inl e
         | Inr allocator' \<Rightarrow> Inr (success, allocator')))"

text \<open>\<^verbatim>\<open>dnnl_graph_sycl_interop_allocator_create\<close> (lines 45 to 61).\<close>

definition dnnl_graph_sycl_interop_allocator_create ::
  "build_t \<Rightarrow> allocator_out \<Rightarrow> fn_ptr option \<Rightarrow> fn_ptr option
    \<Rightarrow> error + status_t \<times> allocator_out" where
  "dnnl_graph_sycl_interop_allocator_create build allocator sycl_malloc sycl_free =
     (if dnnl_graph_with_sycl build then
        (case (if any_null sycl_malloc sycl_free then store allocator create
               else store allocator (create_sycl (the sycl_malloc) (the sycl_free))) of
           Inl e \<Rightarrow> Inl e
         | Inr allocator' \<Rightarrow> Inr (success, allocator'))
      else Inr (unimplemented, allocator))"

section \<open>Evaluation and basic facts\<close>

lemmas monitor_eval =
  monitor_init_def record_allocate_def record_deallocate_def reset_peak_temp_memory_def
  get_peak_temp_memory_def get_total_persist_memory_def subscript_def subscript2_def
  touch_def touch2_def assign2_def emplace_def mutex_def lock_write_def unlock_write_def
  assertm_def total_persist_def persist_entries_def temp_entries_def temp_current_def
  temp_peak_def sum_sizes_def peak_covers_def total_matches_def Let_def

lemma subscript_fmupd [simp]:
  "subscript d (fmupd k v m) k' = (if k = k' then v else subscript d m k')"
  by (simp add: subscript_def)

lemma subscript_fmempty [simp]: "subscript d fmempty k = d"
  by (simp add: subscript_def)

lemma subscript_touch [simp]: "subscript d (touch d k m) k' = subscript d m k'"
  by (simp add: subscript_def touch_def split: option.splits)

lemma subscript2_assign2 [simp]:
  "subscript2 d (assign2 t a v m) t' a' =
     (if t = t' \<and> a = a' then v else subscript2 d m t' a')"
  by (simp add: subscript2_def assign2_def)

lemma subscript2_touch2 [simp]: "subscript2 d (touch2 d t a m) t' a' = subscript2 d m t' a'"
  by (simp add: subscript2_def touch2_def)

lemma fmupd_same: "fmlookup m k = Some v \<Longrightarrow> fmupd k v m = m"
  by (rule fmap_ext) auto

lemma emplace_present: "fmlookup m k = Some w \<Longrightarrow> emplace k v m = m"
  by (simp add: emplace_def)


lemma sum_sizes_fmempty [simp]: "sum_sizes fmempty = 0"
  by (simp add: sum_sizes_def)



subsection \<open>The effect of each operation\<close>

lemma total_persist_eq: "total_persist s alloc = subscript 0 (persist_mem s) alloc"
  by (simp add: total_persist_def get_total_persist_memory_def mutex_def subscript_def Let_def
      split: option.splits)

lemma record_allocate_persistent:
  assumes "data_type attr = Persistent"
  shows "record_allocate tid alloc buf sz attr s =
     Inr (s\<lparr>persist_mem := fmupd alloc (total_persist s alloc + sz) (persist_mem s),
           persist_mem_infos :=
             fmupd alloc
               (emplace buf \<lparr>info_size = sz, info_type = Persistent\<rparr> (persist_entries s alloc))
               (persist_mem_infos s)\<rparr>)"
  using assms by (simp add: record_allocate_def total_persist_eq persist_entries_def)

lemma record_allocate_temp:
  assumes "data_type attr = Temp" and "record_allocate tid alloc buf sz attr s = Inr s'"
  shows "temp_current s' t a =
           (if tid = t \<and> alloc = a then temp_current s t a + sz else temp_current s t a)"
    and "temp_peak s' t a =
           (if tid = t \<and> alloc = a then max (temp_peak s t a) (temp_current s t a + sz)
            else temp_peak s t a)"
    and "persist_mem s' = persist_mem s" and "persist_mem_infos s' = persist_mem_infos s"
    and "rw_mutex s' = rw_mutex s"
  using assms
  by (auto simp: record_allocate_def temp_current_def temp_peak_def Let_def max_def)

lemma record_allocate_output:
  assumes "data_type attr = Output"
  shows "record_allocate tid alloc buf sz attr s = Inl Assertion_failed"
  using assms by (simp add: record_allocate_def assertm_def)

lemma record_deallocate_persist:
  assumes "fmlookup (persist_entries s alloc) buf = Some i"
  shows "record_deallocate tid alloc buf s =
     Inr (s\<lparr>persist_mem := fmupd alloc (total_persist s alloc - info_size i) (persist_mem s),
           persist_mem_infos :=
             fmupd alloc (fmdrop buf (persist_entries s alloc)) (persist_mem_infos s)\<rparr>)"
  using assms
  by (auto simp: record_deallocate_def total_persist_eq persist_entries_def subscript_def Let_def
      split: option.splits)

lemma record_deallocate_temp:
  assumes "fmlookup (persist_entries s alloc) buf = None"
  shows "record_deallocate tid alloc buf s =
     (case fmlookup (temp_entries s tid alloc) buf of
        None \<Rightarrow> Inl Undefined_behaviour
      | Some i \<Rightarrow>
          Inr (s\<lparr>temp_mem :=
                   assign2 tid alloc (temp_current s tid alloc - info_size i) (temp_mem s),
                temp_mem_infos := touch2 fmempty tid alloc (temp_mem_infos s)\<rparr>))"
  using assms
  by (auto simp: record_deallocate_def temp_entries_def temp_current_def persist_entries_def
      subscript_def Let_def split: option.splits)

subsection \<open>The temporary registry along a run\<close>

lemma temp_fields_persistent_update [simp]:
  "temp_current (s\<lparr>persist_mem := pm, persist_mem_infos := pi\<rparr>) t a = temp_current s t a"
  "temp_peak (s\<lparr>persist_mem := pm, persist_mem_infos := pi\<rparr>) t a = temp_peak s t a"
  by (simp_all add: temp_current_def temp_peak_def)

lemma temp_fields_mutex [simp]:
  "temp_current (mutex c s) t a = temp_current s t a"
  "temp_peak (mutex c s) t a = temp_peak s t a"
  by (simp_all add: temp_current_def temp_peak_def mutex_def)

lemma temp_fields_deallocate [simp]:
  "temp_current (s\<lparr>temp_mem := tm, temp_mem_infos := ti\<rparr>) t a = subscript2 0 tm t a"
  "temp_peak (s\<lparr>temp_mem := tm, temp_mem_infos := ti\<rparr>) t a = temp_peak s t a"
  by (simp_all add: temp_current_def temp_peak_def)

lemma temp_fields_reset [simp]:
  "temp_current (reset_peak_temp_memory tid alloc s) t a = temp_current s t a"
  "temp_peak (reset_peak_temp_memory tid alloc s) t a =
     (if tid = t \<and> alloc = a then 0 else temp_peak s t a)"
  by (simp_all add: reset_peak_temp_memory_def temp_current_def temp_peak_def mutex_def)

lemma step_temp_peak_mono:
  assumes "step c s = Inr s'" and "not_reset_of t a c s"
  shows "temp_peak s t a \<le> temp_peak s' t a"
proof (cases c)
  case (Record_allocate tid alloc buf sz attr)
  show ?thesis
  proof (cases "data_type attr")
    case Persistent
    then show ?thesis using assms(1) Record_allocate
      by (auto simp: record_allocate_persistent)
  next
    case Output
    then show ?thesis using assms(1) Record_allocate
      by (simp add: record_allocate_output)
  next
    case Temp
    then show ?thesis using assms(1) Record_allocate
      by (simp add: record_allocate_temp(2))
  qed
next
  case (Record_deallocate tid alloc buf)
  show ?thesis
  proof (cases "fmlookup (persist_entries s alloc) buf")
    case None
    then show ?thesis using assms(1) Record_deallocate
      by (auto simp: record_deallocate_temp split: option.splits)
  next
    case (Some i)
    then show ?thesis using assms(1) Record_deallocate
      by (auto simp: record_deallocate_persist)
  qed
next
  case (Reset_peak_temp_memory tid alloc)
  then show ?thesis using assms by auto
next
  case Monitor_lock_write
  then show ?thesis using assms(1) by (auto simp: lock_write_def)
next
  case Monitor_unlock_write
  then show ?thesis using assms(1) by (auto simp: unlock_write_def)
qed

lemma step_peak_covers:
  assumes "step c s = Inr s'" and "not_reset_of t a c s" and "subtracts_within t a c s"
    and "peak_covers s t a"
  shows "peak_covers s' t a"
proof (cases c)
  case (Record_allocate tid alloc buf sz attr)
  show ?thesis
  proof (cases "data_type attr")
    case Persistent
    then show ?thesis using assms(1,4) Record_allocate
      by (auto simp: record_allocate_persistent peak_covers_def)
  next
    case Output
    then show ?thesis using assms(1) Record_allocate
      by (simp add: record_allocate_output)
  next
    case Temp
    then show ?thesis using assms(1,4) Record_allocate
      by (simp add: record_allocate_temp(1,2) peak_covers_def)
  qed
next
  case (Record_deallocate tid alloc buf)
  show ?thesis
  proof (cases "fmlookup (persist_entries s alloc) buf")
    case None
    note absent = this
    show ?thesis
    proof (cases "fmlookup (temp_entries s tid alloc) buf")
      case None
      then show ?thesis using assms(1) Record_deallocate absent
        by (simp add: record_deallocate_temp)
    next
      case (Some i)
      have s': "s' = s\<lparr>temp_mem :=
                   assign2 tid alloc (temp_current s tid alloc - info_size i) (temp_mem s),
                temp_mem_infos := touch2 fmempty tid alloc (temp_mem_infos s)\<rparr>"
        using assms(1) Record_deallocate Some absent
        by (simp add: record_deallocate_temp)
      show ?thesis
      proof (cases "tid = t \<and> alloc = a")
        case True
        then have fit: "info_size i \<le> temp_current s tid alloc"
          using assms(3) Record_deallocate Some absent by simp
        have "temp_current s tid alloc - info_size i \<le> temp_current s tid alloc"
          using fit by (rule word_sub_le)
        then show ?thesis using assms(4) True unfolding s' peak_covers_def
          by (auto simp: temp_current_def)
      next
        case False
        then show ?thesis using assms(4) unfolding s' peak_covers_def
          by (auto simp: temp_current_def)
      qed
    qed
  next
    case (Some i)
    then show ?thesis using assms(1,4) Record_deallocate
      by (auto simp: record_deallocate_persist peak_covers_def)
  qed
next
  case (Reset_peak_temp_memory tid alloc)
  then show ?thesis using assms by (auto simp: peak_covers_def)
next
  case Monitor_lock_write
  then show ?thesis using assms(1,4) by (auto simp: lock_write_def peak_covers_def)
next
  case Monitor_unlock_write
  then show ?thesis using assms(1,4) by (auto simp: unlock_write_def peak_covers_def)
qed

lemma run_temp_peak_mono:
  "run cs s = Inr s' \<Longrightarrow> along (not_reset_of t a) cs s
   \<Longrightarrow> temp_peak s t a \<le> temp_peak s' t a"
proof (induction cs arbitrary: s)
  case Nil
  then show ?case by simp
next
  case (Cons c cs)
  from Cons.prems(1) obtain s1 where s1: "step c s = Inr s1" and r: "run cs s1 = Inr s'"
    by (auto split: sum.splits)
  from Cons.prems(2) s1 have n: "not_reset_of t a c s" "along (not_reset_of t a) cs s1"
    by simp_all
  show ?case
    using step_temp_peak_mono [OF s1 n(1)] Cons.IH [OF r n(2)] by simp
qed

lemma run_peak_covers:
  "run cs s = Inr s' \<Longrightarrow> along (not_reset_of t a) cs s
   \<Longrightarrow> along (subtracts_within t a) cs s
   \<Longrightarrow> peak_covers s t a \<Longrightarrow> peak_covers s' t a"
proof (induction cs arbitrary: s)
  case Nil
  then show ?case by simp
next
  case (Cons c cs)
  from Cons.prems(1) obtain s1 where s1: "step c s = Inr s1" and r: "run cs s1 = Inr s'"
    by (auto split: sum.splits)
  from Cons.prems(2) s1 have n: "not_reset_of t a c s" "along (not_reset_of t a) cs s1"
    by simp_all
  from Cons.prems(3) s1 have w: "subtracts_within t a c s" "along (subtracts_within t a) cs s1"
    by simp_all
  have "peak_covers s1 t a"
    using step_peak_covers [OF s1 n(1) w(1) Cons.prems(4)] .
  then show ?case using Cons.IH [OF r n(2) w(2)] by simp
qed

lemma record_allocate_temp_covers:
  assumes "data_type attr = Temp"
  shows "\<exists>s'. record_allocate tid alloc buf sz attr s = Inr s' \<and> peak_covers s' tid alloc"
proof -
  obtain s' where s': "record_allocate tid alloc buf sz attr s = Inr s'"
    using assms by (simp add: record_allocate_def Let_def)
  have "peak_covers s' tid alloc"
    by (simp add: peak_covers_def record_allocate_temp(1,2) [OF assms s'])
  with s' show ?thesis by blast
qed

subsection \<open>The persistent registry along a run\<close>

lemma persist_fields_temp_update [simp]:
  "total_persist (s\<lparr>temp_mem := tm, temp_mem_infos := ti\<rparr>) a = total_persist s a"
  "persist_entries (s\<lparr>temp_mem := tm, temp_mem_infos := ti\<rparr>) a = persist_entries s a"
  by (simp_all add: total_persist_eq persist_entries_def)

lemma persist_fields_mutex [simp]:
  "total_persist (mutex c s) a = total_persist s a"
  "persist_entries (mutex c s) a = persist_entries s a"
  by (simp_all add: total_persist_eq persist_entries_def mutex_def)

lemma persist_fields_reset [simp]:
  "total_persist (reset_peak_temp_memory tid alloc s) a = total_persist s a"
  "persist_entries (reset_peak_temp_memory tid alloc s) a = persist_entries s a"
  by (simp_all add: total_persist_eq persist_entries_def reset_peak_temp_memory_def mutex_def)

lemma persist_fields_persistent_update [simp]:
  "total_persist (s\<lparr>persist_mem := fmupd alloc v (persist_mem s), persist_mem_infos := pi\<rparr>) a
     = (if alloc = a then v else total_persist s a)"
  "persist_entries (s\<lparr>persist_mem := pm, persist_mem_infos := fmupd alloc m (persist_mem_infos s)\<rparr>) a
     = (if alloc = a then m else persist_entries s a)"
  by (simp_all add: total_persist_eq persist_entries_def)




lemma persist_entries_persist_mem_update [simp]:
  "persist_entries (s\<lparr>persist_mem := pm\<rparr>) = persist_entries s"
  by (rule ext) (simp add: persist_entries_def)

lemma total_persist_persist_mem_update [simp]:
  "total_persist (s\<lparr>persist_mem := fmupd alloc v pm\<rparr>) a
     = (if alloc = a then v else subscript 0 pm a)"
  by (simp add: total_persist_eq)

lemma record_allocate_persistent_present:
  assumes "data_type attr = Persistent" and "fmlookup (persist_entries s alloc) buf = Some i"
  shows "record_allocate tid alloc buf sz attr s =
           Inr (s\<lparr>persist_mem := fmupd alloc (total_persist s alloc + sz) (persist_mem s)\<rparr>)"
proof -
  have "emplace buf \<lparr>info_size = sz, info_type = Persistent\<rparr> (persist_entries s alloc)
          = persist_entries s alloc"
    using assms(2) by (rule emplace_present)
  moreover have "fmlookup (persist_mem_infos s) alloc = Some (persist_entries s alloc)"
    using assms(2) by (auto simp: persist_entries_def subscript_def split: option.splits)
  ultimately show ?thesis
    by (simp add: record_allocate_persistent [OF assms(1)] fmupd_same)
qed



subsection \<open>Addresses and slots that the registries do not hold\<close>

lemma record_deallocate_unknown:
  assumes "fmlookup (persist_entries s alloc) buf = None"
    and "fmlookup (temp_entries s tid alloc) buf = None"
  shows "record_deallocate tid alloc buf s = Inl Undefined_behaviour"
  using assms by (simp add: record_deallocate_temp)

lemma record_deallocate_temp_entry_stays:
  assumes "fmlookup (persist_entries s alloc) buf = None"
    and "fmlookup (temp_entries s tid alloc) buf = Some i"
    and "record_deallocate tid alloc buf s = Inr s'"
  shows "fmlookup (temp_entries s' tid alloc) buf = Some i"
    and "temp_current s' tid alloc = temp_current s tid alloc - info_size i"
  using assms by (auto simp: record_deallocate_temp temp_entries_def temp_current_def)

lemma get_peak_temp_memory_absent:
  assumes "fmlookup (subscript fmempty (peak_temp_mem s) tid) alloc = None"
  shows "get_peak_temp_memory tid alloc s = Inl (Out_of_range (mutex Lock_read s))"
  using assms
  by (auto simp: get_peak_temp_memory_def subscript_def mutex_def Let_def split: option.splits)

lemma get_peak_temp_memory_after_reset:
  "get_peak_temp_memory tid alloc (reset_peak_temp_memory tid alloc s)
     = Inr (0, mutex Unlock_read (mutex Lock_read (reset_peak_temp_memory tid alloc s)))"
  by (simp add: get_peak_temp_memory_def reset_peak_temp_memory_def assign2_def mutex_def Let_def)

section \<open>The claims\<close>

text \<open>
  C1. An address that neither the persistent entry map of the allocator nor the temporary
  entry map of the calling thread holds: thread 0 records a temporary allocation at address
  7, thread 1 deallocates it. \<^verbatim>\<open>record_deallocate\<close> reports no error: \<^verbatim>\<open>find\<close> returns
  \<^verbatim>\<open>end()\<close> and line 121 dereferences it.
\<close>

theorem record_deallocate_unknown_address:
  "run [Record_allocate 0 0 7 8 \<lparr>data_type = Temp\<rparr>, Record_deallocate 1 0 7] monitor_init
     = Inl Undefined_behaviour"
  by (simp add: monitor_eval)

text \<open>
  C2. A temporary allocation of 8 bytes at address 7 is recorded and deallocated by the same
  thread: the current total is back to 0, and the record of address 7 is still in the
  temporary entry map.
\<close>

theorem record_deallocate_temp_keeps_entry:
  "\<not> isl (run [Record_allocate 0 0 7 8 \<lparr>data_type = Temp\<rparr>, Record_deallocate 0 0 7] monitor_init)
   \<and> temp_current
        (projr (run [Record_allocate 0 0 7 8 \<lparr>data_type = Temp\<rparr>, Record_deallocate 0 0 7]
                  monitor_init)) 0 0 = 0
   \<and> fmlookup
        (temp_entries
          (projr (run [Record_allocate 0 0 7 8 \<lparr>data_type = Temp\<rparr>, Record_deallocate 0 0 7]
                    monitor_init)) 0 0) 7
       = Some \<lparr>info_size = 8, info_type = Temp\<rparr>"
  by (simp add: monitor_eval)

text \<open>
  The record that stays is read again when the address is reused: a second allocation at
  address 7, of 4 bytes, is not inserted, its deallocation subtracts the 8 bytes of the
  first, and the current total wraps around to \<open>2 ^ 64 - 4\<close>, above the peak.
\<close>

lemma stale_temp_entry_is_reused:
  "\<not> isl (run [Record_allocate 0 0 7 8 \<lparr>data_type = Temp\<rparr>, Record_deallocate 0 0 7,
               Record_allocate 0 0 7 4 \<lparr>data_type = Temp\<rparr>, Record_deallocate 0 0 7]
            monitor_init)
   \<and> temp_current
        (projr (run [Record_allocate 0 0 7 8 \<lparr>data_type = Temp\<rparr>, Record_deallocate 0 0 7,
                     Record_allocate 0 0 7 4 \<lparr>data_type = Temp\<rparr>, Record_deallocate 0 0 7]
                  monitor_init)) 0 0 = - 4
   \<and> temp_peak
        (projr (run [Record_allocate 0 0 7 8 \<lparr>data_type = Temp\<rparr>, Record_deallocate 0 0 7,
                     Record_allocate 0 0 7 4 \<lparr>data_type = Temp\<rparr>, Record_deallocate 0 0 7]
                  monitor_init)) 0 0 = 8"
  by (simp add: monitor_eval)

text \<open>
  C3. On the initial registries, where no slot of thread 0 and allocator 0 exists,
  \<^verbatim>\<open>get_peak_temp_memory\<close> does not return 0: \<^verbatim>\<open>at\<close> throws \<^verbatim>\<open>std::out_of_range\<close>,
  and the read lock taken before is not released.
\<close>

theorem get_peak_temp_memory_uninitialized_throws:
  "get_peak_temp_memory 0 0 monitor_init
     = Inl (Out_of_range (monitor_init\<lparr>rw_mutex := [Lock_read]\<rparr>))"
  by (simp add: monitor_eval)

text \<open>
  C4, as stated, fails: \<^verbatim>\<open>record_allocate\<close> and \<^verbatim>\<open>record_deallocate\<close> return without
  having made any call on the mutex.
\<close>

theorem record_allocate_takes_no_lock:
  "\<not> isl (run [Record_allocate 0 0 7 8 \<lparr>data_type = Persistent\<rparr>, Record_deallocate 0 0 7]
            monitor_init)
   \<and> rw_mutex
        (projr (run [Record_allocate 0 0 7 8 \<lparr>data_type = Persistent\<rparr>, Record_deallocate 0 0 7]
                  monitor_init)) = []"
  by (simp add: monitor_eval)

text \<open>
  C4, amended. Of the three mutating operations only \<^verbatim>\<open>reset_peak_temp_memory\<close> takes the
  lock itself. The operation is the execution of its three statements \<^verbatim>\<open>lock_write\<close>,
  registry update, \<^verbatim>\<open>unlock_write\<close>: its update is made while the lock is held in
  exclusive mode, the lock is released at the end, and these two are its only calls on the
  mutex. \<^verbatim>\<open>record_allocate\<close> and \<^verbatim>\<open>record_deallocate\<close>, when they return, have made no
  call on the mutex.
\<close>

theorem monitor_lock_calls:
  "reset_peak_temp_memory tid alloc s = exec_stmts (reset_peak_temp_memory_body tid alloc) s
   \<and> write_locked False (reset_peak_temp_memory_body tid alloc) = Some False
   \<and> rw_mutex (reset_peak_temp_memory tid alloc s) = rw_mutex s @ [Lock_write, Unlock_write]
   \<and> (record_allocate tid alloc buf sz attr sa = Inr sa' \<longrightarrow> rw_mutex sa' = rw_mutex sa)
   \<and> (record_deallocate tid alloc buf sd = Inr sd' \<longrightarrow> rw_mutex sd' = rw_mutex sd)"
proof (intro conjI impI)
  show "reset_peak_temp_memory tid alloc s = exec_stmts (reset_peak_temp_memory_body tid alloc) s"
    by (simp add: reset_peak_temp_memory_def exec_stmts_def reset_peak_temp_memory_body_def
        mutex_def Let_def)
next
  show "write_locked False (reset_peak_temp_memory_body tid alloc) = Some False"
    by (simp add: reset_peak_temp_memory_body_def)
next
  show "rw_mutex (reset_peak_temp_memory tid alloc s) = rw_mutex s @ [Lock_write, Unlock_write]"
    by (simp add: reset_peak_temp_memory_def mutex_def)
next
  assume "record_allocate tid alloc buf sz attr sa = Inr sa'"
  then show "rw_mutex sa' = rw_mutex sa"
    by (cases "data_type attr")
      (auto simp: record_allocate_persistent record_allocate_output record_allocate_temp(5))
next
  assume "record_deallocate tid alloc buf sd = Inr sd'"
  then show "rw_mutex sd' = rw_mutex sd"
    by (cases "fmlookup (persist_entries sd alloc) buf")
      (auto simp: record_deallocate_temp record_deallocate_persist split: option.splits)
qed

theorem monitor_lock_calls_witness:
  "record_allocate 0 0 7 8 \<lparr>data_type = Temp\<rparr> monitor_init
     = Inr (projr (record_allocate 0 0 7 8 \<lparr>data_type = Temp\<rparr> monitor_init))
   \<and> rw_mutex (projr (record_allocate 0 0 7 8 \<lparr>data_type = Temp\<rparr> monitor_init))
       = rw_mutex monitor_init
   \<and> record_deallocate 0 0 7 (projr (record_allocate 0 0 7 8 \<lparr>data_type = Temp\<rparr> monitor_init))
       = Inr (projr (record_deallocate 0 0 7
                      (projr (record_allocate 0 0 7 8 \<lparr>data_type = Temp\<rparr> monitor_init))))
   \<and> rw_mutex (projr (record_deallocate 0 0 7
                  (projr (record_allocate 0 0 7 8 \<lparr>data_type = Temp\<rparr> monitor_init))))
       = rw_mutex (projr (record_allocate 0 0 7 8 \<lparr>data_type = Temp\<rparr> monitor_init))
   \<and> rw_mutex (reset_peak_temp_memory 0 0 monitor_init) = [Lock_write, Unlock_write]
   \<and> reset_peak_temp_memory 0 0 monitor_init
       = exec_stmts (reset_peak_temp_memory_body 0 0) monitor_init
   \<and> write_locked False (reset_peak_temp_memory_body 0 0) = Some False"
  using monitor_lock_calls [of 0 0 monitor_init 7 8 "\<lparr>data_type = Temp\<rparr>" monitor_init
      "projr (record_allocate 0 0 7 8 \<lparr>data_type = Temp\<rparr> monitor_init)"
      "projr (record_allocate 0 0 7 8 \<lparr>data_type = Temp\<rparr> monitor_init)"
      "projr (record_deallocate 0 0 7
                (projr (record_allocate 0 0 7 8 \<lparr>data_type = Temp\<rparr> monitor_init)))"]
  by (simp add: monitor_eval exec_stmts_def reset_peak_temp_memory_body_def)

text \<open>
  When a caller brackets a recording call with the monitor's \<^verbatim>\<open>lock_write\<close> and
  \<^verbatim>\<open>unlock_write\<close>, these two are the calls made on the mutex.
\<close>

lemma bracketed_record_allocate:
  assumes "run [Monitor_lock_write, Record_allocate tid alloc buf sz attr, Monitor_unlock_write] s
             = Inr s'"
  shows "rw_mutex s' = rw_mutex s @ [Lock_write, Unlock_write]"
proof -
  from assms obtain s1 where s1: "record_allocate tid alloc buf sz attr (lock_write s) = Inr s1"
    and s': "s' = unlock_write s1"
    by (auto split: sum.splits)
  have "rw_mutex s1 = rw_mutex (lock_write s)"
    using s1
    by (cases "data_type attr")
      (auto simp: record_allocate_persistent record_allocate_output record_allocate_temp(5))
  then show ?thesis
    by (simp add: s' lock_write_def unlock_write_def mutex_def)
qed

text \<open>
  C5, as stated, fails: \<^verbatim>\<open>reset_peak_temp_memory\<close> sets the peak to 0 and leaves the
  current total, here 8, as it is.
\<close>

theorem reset_breaks_peak_covers:
  "\<not> isl (run [Record_allocate 0 0 7 8 \<lparr>data_type = Temp\<rparr>, Reset_peak_temp_memory 0 0]
            monitor_init)
   \<and> \<not> peak_covers
        (projr (run [Record_allocate 0 0 7 8 \<lparr>data_type = Temp\<rparr>, Reset_peak_temp_memory 0 0]
                  monitor_init)) 0 0"
  by (simp add: monitor_eval)

text \<open>
  C5, amended. For every pair of a thread and an allocator, along any run of monitor calls
  without a \<^verbatim>\<open>reset_peak_temp_memory\<close> of that pair (resets of other pairs may occur) the
  stored peak of the pair never decreases, and the peak, once it covers the current total,
  covers it at the end of the run, provided that the temporary deallocations of that pair
  subtract no more than its current total. Every temporary \<^verbatim>\<open>record_allocate\<close> returns
  and makes the peak of its pair cover the current total. \<^verbatim>\<open>reset_peak_temp_memory\<close>
  sets the peak of its pair to 0 and keeps the current total.
\<close>

theorem temp_peak_order:
  "(run cs s = Inr s' \<and> along (not_reset_of t a) cs s \<longrightarrow>
      temp_peak s t a \<le> temp_peak s' t a
      \<and> (along (subtracts_within t a) cs s \<and> peak_covers s t a \<longrightarrow> peak_covers s' t a))
   \<and> (data_type attr = Temp \<longrightarrow>
        (\<exists>s1. record_allocate tid alloc buf sz attr s0 = Inr s1 \<and> peak_covers s1 tid alloc))
   \<and> temp_peak (reset_peak_temp_memory tid alloc s0) tid alloc = 0
   \<and> temp_current (reset_peak_temp_memory tid alloc s0) tid alloc = temp_current s0 tid alloc"
proof (intro conjI impI)
  assume "run cs s = Inr s' \<and> along (not_reset_of t a) cs s"
  then show "temp_peak s t a \<le> temp_peak s' t a"
    by (blast intro: run_temp_peak_mono)
next
  assume "run cs s = Inr s' \<and> along (not_reset_of t a) cs s"
    and "along (subtracts_within t a) cs s \<and> peak_covers s t a"
  then show "peak_covers s' t a"
    by (blast intro: run_peak_covers)
next
  assume "data_type attr = Temp"
  then show "\<exists>s1. record_allocate tid alloc buf sz attr s0 = Inr s1 \<and> peak_covers s1 tid alloc"
    by (rule record_allocate_temp_covers)
next
  show "temp_peak (reset_peak_temp_memory tid alloc s0) tid alloc = 0"
    by simp
next
  show "temp_current (reset_peak_temp_memory tid alloc s0) tid alloc = temp_current s0 tid alloc"
    by simp
qed

theorem temp_peak_order_witness:
  "run [Record_allocate 0 0 7 8 \<lparr>data_type = Temp\<rparr>, Record_allocate 1 0 5 32 \<lparr>data_type = Temp\<rparr>,
         Reset_peak_temp_memory 1 0, Record_allocate 0 0 9 16 \<lparr>data_type = Temp\<rparr>, Record_deallocate 0 0 7,
         Reset_peak_temp_memory 0 1] monitor_init = Inr (projr (run [Record_allocate 0 0 7 8 \<lparr>data_type = Temp\<rparr>, Record_allocate 1 0 5 32 \<lparr>data_type = Temp\<rparr>,
         Reset_peak_temp_memory 1 0, Record_allocate 0 0 9 16 \<lparr>data_type = Temp\<rparr>, Record_deallocate 0 0 7,
         Reset_peak_temp_memory 0 1] monitor_init))
   \<and> along (not_reset_of 0 0) [Record_allocate 0 0 7 8 \<lparr>data_type = Temp\<rparr>, Record_allocate 1 0 5 32 \<lparr>data_type = Temp\<rparr>,
         Reset_peak_temp_memory 1 0, Record_allocate 0 0 9 16 \<lparr>data_type = Temp\<rparr>, Record_deallocate 0 0 7,
         Reset_peak_temp_memory 0 1] monitor_init
   \<and> along (subtracts_within 0 0) [Record_allocate 0 0 7 8 \<lparr>data_type = Temp\<rparr>, Record_allocate 1 0 5 32 \<lparr>data_type = Temp\<rparr>,
         Reset_peak_temp_memory 1 0, Record_allocate 0 0 9 16 \<lparr>data_type = Temp\<rparr>, Record_deallocate 0 0 7,
         Reset_peak_temp_memory 0 1] monitor_init
   \<and> peak_covers monitor_init 0 0
   \<and> data_type \<lparr>data_type = Temp\<rparr> = Temp
   \<and> temp_peak monitor_init 0 0 \<le> temp_peak (projr (run [Record_allocate 0 0 7 8 \<lparr>data_type = Temp\<rparr>, Record_allocate 1 0 5 32 \<lparr>data_type = Temp\<rparr>,
         Reset_peak_temp_memory 1 0, Record_allocate 0 0 9 16 \<lparr>data_type = Temp\<rparr>, Record_deallocate 0 0 7,
         Reset_peak_temp_memory 0 1] monitor_init)) 0 0
   \<and> peak_covers (projr (run [Record_allocate 0 0 7 8 \<lparr>data_type = Temp\<rparr>, Record_allocate 1 0 5 32 \<lparr>data_type = Temp\<rparr>,
         Reset_peak_temp_memory 1 0, Record_allocate 0 0 9 16 \<lparr>data_type = Temp\<rparr>, Record_deallocate 0 0 7,
         Reset_peak_temp_memory 0 1] monitor_init)) 0 0
   \<and> temp_peak (projr (run [Record_allocate 0 0 7 8 \<lparr>data_type = Temp\<rparr>, Record_allocate 1 0 5 32 \<lparr>data_type = Temp\<rparr>,
         Reset_peak_temp_memory 1 0, Record_allocate 0 0 9 16 \<lparr>data_type = Temp\<rparr>, Record_deallocate 0 0 7,
         Reset_peak_temp_memory 0 1] monitor_init)) 0 0 = 24
   \<and> temp_current (projr (run [Record_allocate 0 0 7 8 \<lparr>data_type = Temp\<rparr>, Record_allocate 1 0 5 32 \<lparr>data_type = Temp\<rparr>,
         Reset_peak_temp_memory 1 0, Record_allocate 0 0 9 16 \<lparr>data_type = Temp\<rparr>, Record_deallocate 0 0 7,
         Reset_peak_temp_memory 0 1] monitor_init)) 0 0 = 16
   \<and> (\<exists>s1. record_allocate 0 0 7 8 \<lparr>data_type = Temp\<rparr> monitor_init = Inr s1 \<and> peak_covers s1 0 0)"
  using temp_peak_order [of "[Record_allocate 0 0 7 8 \<lparr>data_type = Temp\<rparr>, Record_allocate 1 0 5 32 \<lparr>data_type = Temp\<rparr>,
         Reset_peak_temp_memory 1 0, Record_allocate 0 0 9 16 \<lparr>data_type = Temp\<rparr>, Record_deallocate 0 0 7,
         Reset_peak_temp_memory 0 1]" monitor_init "projr (run [Record_allocate 0 0 7 8 \<lparr>data_type = Temp\<rparr>, Record_allocate 1 0 5 32 \<lparr>data_type = Temp\<rparr>,
         Reset_peak_temp_memory 1 0, Record_allocate 0 0 9 16 \<lparr>data_type = Temp\<rparr>, Record_deallocate 0 0 7,
         Reset_peak_temp_memory 0 1] monitor_init)" 0 0
      "\<lparr>data_type = Temp\<rparr>" 0 0 7 8 monitor_init]
  by (simp add: monitor_eval)




text \<open>
  C7, as stated, fails when the address is already in the persistent entry map with another
  size: with 8 bytes recorded at address 7 the total is 8; recording 4 bytes at address 7
  and deallocating address 7 leaves a total of 4.
\<close>

theorem allocate_deallocate_not_restoring:
  "\<not> isl (run [Record_allocate 0 0 7 8 \<lparr>data_type = Persistent\<rparr>] monitor_init)
   \<and> total_persist (projr (run [Record_allocate 0 0 7 8 \<lparr>data_type = Persistent\<rparr>] monitor_init)) 0 = 8
   \<and> \<not> isl (run [Record_allocate 0 0 7 4 \<lparr>data_type = Persistent\<rparr>, Record_deallocate 0 0 7]
              (projr (run [Record_allocate 0 0 7 8 \<lparr>data_type = Persistent\<rparr>] monitor_init)))
   \<and> total_persist
        (projr (run [Record_allocate 0 0 7 4 \<lparr>data_type = Persistent\<rparr>, Record_deallocate 0 0 7]
                  (projr (run [Record_allocate 0 0 7 8 \<lparr>data_type = Persistent\<rparr>] monitor_init)))) 0 = 4"
  by (simp add: monitor_eval)

text \<open>
  C7, amended. For every allocator, size and address that the persistent entry map of the
  allocator does not hold, or holds with that same size, a persistent
  \<^verbatim>\<open>record_allocate\<close> followed by the \<^verbatim>\<open>record_deallocate\<close> of the address (from any
  thread) both return, and \<^verbatim>\<open>get_total_persist_memory\<close> is back to its value before the
  allocation.
\<close>

theorem allocate_deallocate_restores_total:
  assumes "data_type attr = Persistent"
    and "map_option info_size (fmlookup (persist_entries s alloc) buf) \<in> {None, Some sz}"
  shows "\<exists>s1 s2. record_allocate tid alloc buf sz attr s = Inr s1
           \<and> record_deallocate tid' alloc buf s1 = Inr s2
           \<and> total_persist s2 alloc = total_persist s alloc"
proof -
  let ?info = "\<lparr>info_size = sz, info_type = Persistent\<rparr>"
  let ?s1 = "s\<lparr>persist_mem := fmupd alloc (total_persist s alloc + sz) (persist_mem s),
           persist_mem_infos :=
             fmupd alloc (emplace buf ?info (persist_entries s alloc)) (persist_mem_infos s)\<rparr>"
  have s1: "record_allocate tid alloc buf sz attr s = Inr ?s1"
    using assms(1) by (rule record_allocate_persistent)
  obtain i where i: "fmlookup (persist_entries ?s1 alloc) buf = Some i" and sz: "info_size i = sz"
    using assms(2) by (auto simp: emplace_def split: option.splits)
  have "record_deallocate tid' alloc buf ?s1 =
     Inr (?s1\<lparr>persist_mem := fmupd alloc (total_persist ?s1 alloc - info_size i) (persist_mem ?s1),
           persist_mem_infos :=
             fmupd alloc (fmdrop buf (persist_entries ?s1 alloc)) (persist_mem_infos ?s1)\<rparr>)"
    (is "_ = Inr ?s2")
    using i by (rule record_deallocate_persist)
  moreover have "total_persist ?s2 alloc = total_persist s alloc"
    by (simp add: sz)
  ultimately show ?thesis using s1 by blast
qed

theorem allocate_deallocate_restores_total_witness:
  "data_type \<lparr>data_type = Persistent\<rparr> = Persistent
   \<and> map_option info_size (fmlookup (persist_entries monitor_init 0) 7) \<in> {None, Some 8}
   \<and> (\<exists>s1 s2. record_allocate 0 0 7 8 \<lparr>data_type = Persistent\<rparr> monitor_init = Inr s1
         \<and> record_deallocate 1 0 7 s1 = Inr s2
         \<and> total_persist s2 0 = total_persist monitor_init 0)"
proof -
  have h1: "data_type \<lparr>data_type = Persistent\<rparr> = Persistent" by simp
  have h2: "map_option info_size (fmlookup (persist_entries monitor_init 0) 7) \<in> {None, Some 8}"
    by (simp add: monitor_eval)
  show ?thesis
    using h1 h2 allocate_deallocate_restores_total [OF h1 h2, of 0 1] by simp
qed

text \<open>
  C8, as stated, fails in a build that defines \<^verbatim>\<open>DNNL_GRAPH_CPU_SYCL\<close>: the host creation
  function returns \<^verbatim>\<open>invalid_arguments\<close> and constructs nothing.
\<close>

theorem allocator_create_cpu_sycl_build:
  "dnnl_graph_allocator_create \<lparr>dnnl_graph_cpu_sycl = True, dnnl_graph_with_sycl = True\<rparr>
     (Out None) None (Some 1) = Inr (invalid_arguments, Out None)"
  by (simp add: dnnl_graph_allocator_create_def)

text \<open>
  C8, amended. When at least one of the two callbacks is null and the out-parameter is not
  the null pointer, the host creation function of a build without \<^verbatim>\<open>DNNL_GRAPH_CPU_SYCL\<close>
  ignores both callbacks, stores the allocator of the argument-free \<^verbatim>\<open>create()\<close> through
  the out-parameter and returns \<^verbatim>\<open>success\<close>. In a build with \<^verbatim>\<open>DNNL_GRAPH_CPU_SYCL\<close> it
  returns \<^verbatim>\<open>invalid_arguments\<close> and leaves the out-parameter alone, whatever the
  out-parameter is. The SYCL creation function does the same in a build with
  \<^verbatim>\<open>DNNL_GRAPH_WITH_SYCL\<close>, and returns \<^verbatim>\<open>unimplemented\<close> in a build without it.
\<close>

theorem allocator_create_null_callback:
  "any_null callback_malloc callback_free \<Longrightarrow>
     (\<not> dnnl_graph_cpu_sycl build \<longrightarrow>
        dnnl_graph_allocator_create build (Out old) callback_malloc callback_free
          = Inr (success, Out (Some create)))
   \<and> (dnnl_graph_cpu_sycl build \<longrightarrow>
        dnnl_graph_allocator_create build allocator callback_malloc callback_free
          = Inr (invalid_arguments, allocator))
   \<and> (dnnl_graph_with_sycl build \<longrightarrow>
        dnnl_graph_sycl_interop_allocator_create build (Out old) callback_malloc callback_free
          = Inr (success, Out (Some create)))
   \<and> (\<not> dnnl_graph_with_sycl build \<longrightarrow>
        dnnl_graph_sycl_interop_allocator_create build allocator callback_malloc callback_free
          = Inr (unimplemented, allocator))"
  by (simp add: dnnl_graph_allocator_create_def dnnl_graph_sycl_interop_allocator_create_def)

theorem allocator_create_null_callback_witness:
  "any_null None (Some 1)
   \<and> dnnl_graph_allocator_create \<lparr>dnnl_graph_cpu_sycl = False, dnnl_graph_with_sycl = True\<rparr>
        (Out None) None (Some 1) = Inr (success, Out (Some create))
   \<and> dnnl_graph_sycl_interop_allocator_create
        \<lparr>dnnl_graph_cpu_sycl = False, dnnl_graph_with_sycl = True\<rparr> (Out None) None (Some 1)
       = Inr (success, Out (Some create))
   \<and> dnnl_graph_allocator_create \<lparr>dnnl_graph_cpu_sycl = True, dnnl_graph_with_sycl = False\<rparr>
        Null_out None (Some 1) = Inr (invalid_arguments, Null_out)
   \<and> dnnl_graph_sycl_interop_allocator_create
        \<lparr>dnnl_graph_cpu_sycl = True, dnnl_graph_with_sycl = False\<rparr> Null_out None (Some 1)
       = Inr (unimplemented, Null_out)"
proof -
  have h: "any_null None (Some 1)" by (simp add: any_null_def)
  show ?thesis
    using h
      allocator_create_null_callback [OF h,
        of "\<lparr>dnnl_graph_cpu_sycl = False, dnnl_graph_with_sycl = True\<rparr>" None]
      allocator_create_null_callback [OF h,
        of "\<lparr>dnnl_graph_cpu_sycl = True, dnnl_graph_with_sycl = False\<rparr>" _ Null_out]
    by simp
qed

text \<open>
  Where the build constructs an allocator, neither creation function tests the out-parameter
  (\<^verbatim>\<open>dnnl_graph_allocator_destroy\<close> does test its argument, line 64): with the null
  pointer, lines 37, 39, 50 and 52 write through it.
\<close>

lemma allocator_create_null_out_parameter:
  "\<not> dnnl_graph_cpu_sycl build \<Longrightarrow>
     dnnl_graph_allocator_create build Null_out cpu_malloc cpu_free = Inl Undefined_behaviour"
  "dnnl_graph_with_sycl build \<Longrightarrow>
     dnnl_graph_sycl_interop_allocator_create build Null_out sycl_malloc sycl_free
       = Inl Undefined_behaviour"
  by (simp_all add: dnnl_graph_allocator_create_def dnnl_graph_sycl_interop_allocator_create_def)

text \<open>
  C9. Every call of \<^verbatim>\<open>record_allocate\<close> whose attribute carries the reserved
  \<^verbatim>\<open>output\<close> lifetime ends in the failed assertion: the call returns no state, so it
  neither records the allocation nor skips it silently.
\<close>

theorem record_allocate_output_aborts:
  "data_type attr = Output \<Longrightarrow> record_allocate tid alloc buf sz attr s = Inl Assertion_failed"
  by (simp add: record_allocate_def assertm_def)

theorem record_allocate_output_aborts_witness:
  "data_type \<lparr>data_type = Output\<rparr> = Output
   \<and> record_allocate 0 0 7 8 \<lparr>data_type = Output\<rparr> monitor_init = Inl Assertion_failed"
  using record_allocate_output_aborts [of "\<lparr>data_type = Output\<rparr>" 0 0 7 8 monitor_init]
  by simp

text \<open>
  C10, as stated, fails where the additions wrap around: with \<open>2 ^ 63\<close> bytes recorded at
  address 7, two further persistent allocations of \<open>2 ^ 63\<close> bytes recorded at address 7
  leave the total at \<open>2 ^ 63\<close>, equal to the sum of the recorded sizes and not above it.
\<close>

theorem repeated_allocate_total_wraps:
  "fmlookup (persist_entries
       (projr (run [Record_allocate 0 0 7 9223372036854775808 \<lparr>data_type = Persistent\<rparr>] monitor_init)) 0) 7
     = Some \<lparr>info_size = 9223372036854775808, info_type = Persistent\<rparr>
   \<and> \<not> isl (run [Record_allocate 0 0 7 9223372036854775808 \<lparr>data_type = Persistent\<rparr>,
                Record_allocate 0 0 7 9223372036854775808 \<lparr>data_type = Persistent\<rparr>]
              (projr (run [Record_allocate 0 0 7 9223372036854775808 \<lparr>data_type = Persistent\<rparr>] monitor_init)))
   \<and> \<not> sum_sizes (persist_entries
          (projr (run [Record_allocate 0 0 7 9223372036854775808 \<lparr>data_type = Persistent\<rparr>,
                       Record_allocate 0 0 7 9223372036854775808 \<lparr>data_type = Persistent\<rparr>]
                    (projr (run [Record_allocate 0 0 7 9223372036854775808 \<lparr>data_type = Persistent\<rparr>] monitor_init)))) 0)
        < total_persist
          (projr (run [Record_allocate 0 0 7 9223372036854775808 \<lparr>data_type = Persistent\<rparr>,
                       Record_allocate 0 0 7 9223372036854775808 \<lparr>data_type = Persistent\<rparr>]
                    (projr (run [Record_allocate 0 0 7 9223372036854775808 \<lparr>data_type = Persistent\<rparr>] monitor_init)))) 0"
  by (simp add: monitor_eval)

text \<open>
  C10, amended. A persistent \<^verbatim>\<open>record_allocate\<close> for an address that the persistent entry
  map of the allocator already holds returns, leaves the entry maps as they are and adds
  the new size to the persistent total, in \<^verbatim>\<open>size_t\<close> arithmetic. After two such calls
  with non-zero sizes the total is strictly above the sum of the recorded sizes, provided
  that it was not below that sum before and that the two additions do not wrap around.
\<close>

theorem persistent_allocate_present_address:
  assumes "data_type attr = Persistent" and "data_type attr' = Persistent"
    and "fmlookup (persist_entries s alloc) buf = Some i"
  shows "\<exists>s1 s2. record_allocate tid alloc buf sz attr s = Inr s1
      \<and> record_allocate tid' alloc buf sz' attr' s1 = Inr s2
      \<and> persist_mem_infos s1 = persist_mem_infos s \<and> persist_mem_infos s2 = persist_mem_infos s
      \<and> total_persist s1 alloc = total_persist s alloc + sz
      \<and> total_persist s2 alloc = total_persist s alloc + sz + sz'
      \<and> (sz \<noteq> 0 \<and> sz' \<noteq> 0 \<and> sum_sizes (persist_entries s alloc) \<le> total_persist s alloc
          \<and> unat (total_persist s alloc) + unat sz + unat sz' < 2 ^ 64
         \<longrightarrow> sum_sizes (persist_entries s2 alloc) < total_persist s2 alloc)"
proof -
  define s1 where "s1 = s\<lparr>persist_mem := fmupd alloc (total_persist s alloc + sz) (persist_mem s)\<rparr>"
  define s2 where "s2 = s1\<lparr>persist_mem := fmupd alloc (total_persist s1 alloc + sz') (persist_mem s1)\<rparr>"
  have r1: "record_allocate tid alloc buf sz attr s = Inr s1"
    unfolding s1_def using assms(1,3) by (rule record_allocate_persistent_present)
  have e1: "persist_entries s1 = persist_entries s" and i1: "persist_mem_infos s1 = persist_mem_infos s"
    and t1: "total_persist s1 alloc = total_persist s alloc + sz"
    by (simp_all add: s1_def)
  have r2: "record_allocate tid' alloc buf sz' attr' s1 = Inr s2"
    unfolding s2_def using assms(2,3) e1 by (intro record_allocate_persistent_present) simp_all
  have e2: "persist_entries s2 = persist_entries s" and i2: "persist_mem_infos s2 = persist_mem_infos s"
    and t2: "total_persist s2 alloc = total_persist s alloc + sz + sz'"
    using e1 i1 t1 by (simp_all add: s2_def)
  have gt: "sum_sizes (persist_entries s2 alloc) < total_persist s2 alloc"
    if nz: "sz \<noteq> 0" and le: "sum_sizes (persist_entries s alloc) \<le> total_persist s alloc"
      and nw: "unat (total_persist s alloc) + unat sz + unat sz' < 2 ^ 64"
  proof -
    have a: "unat (total_persist s alloc + sz) = unat (total_persist s alloc) + unat sz"
      using nw by (simp add: unat_add_lem [THEN iffD1])
    have b: "unat (total_persist s alloc + sz + sz') = unat (total_persist s alloc + sz) + unat sz'"
      using nw a by (simp add: unat_add_lem [THEN iffD1])
    have "0 < unat sz" using nz by (simp add: unat_gt_0)
    then show ?thesis using le a b unfolding e2 t2
      by (simp add: word_less_nat_alt word_le_nat_alt)
  qed
  show ?thesis
    using r1 r2 i1 i2 t1 t2 gt by blast
qed

theorem persistent_allocate_present_address_witness:
  "data_type \<lparr>data_type = Persistent\<rparr> = Persistent
   \<and> fmlookup (persist_entries (projr (run [Record_allocate 0 0 7 8 \<lparr>data_type = Persistent\<rparr>] monitor_init)) 0) 7
       = Some \<lparr>info_size = 8, info_type = Persistent\<rparr>
   \<and> (8::size_t) \<noteq> 0 \<and> (4::size_t) \<noteq> 0
   \<and> sum_sizes (persist_entries (projr (run [Record_allocate 0 0 7 8 \<lparr>data_type = Persistent\<rparr>] monitor_init)) 0)
       \<le> total_persist (projr (run [Record_allocate 0 0 7 8 \<lparr>data_type = Persistent\<rparr>] monitor_init)) 0
   \<and> unat (total_persist (projr (run [Record_allocate 0 0 7 8 \<lparr>data_type = Persistent\<rparr>] monitor_init)) 0)
         + unat (8::size_t) + unat (4::size_t) < 2 ^ 64
   \<and> (\<exists>s1 s2.
         record_allocate 0 0 7 8 \<lparr>data_type = Persistent\<rparr> (projr (run [Record_allocate 0 0 7 8 \<lparr>data_type = Persistent\<rparr>] monitor_init)) = Inr s1
         \<and> record_allocate 1 0 7 4 \<lparr>data_type = Persistent\<rparr> s1 = Inr s2
         \<and> total_persist s2 0 = 20
         \<and> sum_sizes (persist_entries s2 0) < total_persist s2 0)"
proof -
  let ?s = "projr (run [Record_allocate 0 0 7 8 \<lparr>data_type = Persistent\<rparr>] monitor_init)"
  have h1: "data_type \<lparr>data_type = Persistent\<rparr> = Persistent" by simp
  have h3: "fmlookup (persist_entries ?s 0) 7 = Some \<lparr>info_size = 8, info_type = Persistent\<rparr>"
    by (simp add: monitor_eval)
  have t: "total_persist ?s 0 = 8" and e: "sum_sizes (persist_entries ?s 0) = 8"
    by (simp_all add: monitor_eval)
  show ?thesis
    using h1 h3 t e persistent_allocate_present_address [OF h1 h1 h3, of 0 8 1 4]
    by auto
qed

end
